theory Spec2Isabelle
  imports Complex_Main "HOL-Library.Char_ord" "HOL-Library.List_Lexorder"
begin

section \<open>Values, floats and errors\<close>

text \<open>
  The module \<^verbatim>\<open>tools/fairness/bias_check.py\<close> computes group fairness metrics with
  pandas and numpy. The embedding keeps its structure: every \<^verbatim>\<open>raise\<close> (of the module
  or of the library call it makes) is an \<open>Inl\<close> of the result type, and every function
  of the source is a definition of the same name.

  A cell of an input sequence is an integer, a string, or a missing value (\<^verbatim>\<open>None\<close> or
  \<^verbatim>\<open>float("nan")\<close>, which pandas treats alike in \<^verbatim>\<open>notna\<close>, in comparisons and in
  categoricals).
\<close>

datatype pyval = PInt int | PStr string | PNone

text \<open>
  A Python float is modelled by its exact rational value, or not-a-number. The float
  the program holds is the correctly rounded image of that rational; rounding is
  monotone and keeps 0 and 1, so order facts and the not-a-number cases carry over.
\<close>

datatype pyfloat = Fl rat | NaN

datatype error = ValueError string | KeyError string | ZeroDivisionError

definition bind_err :: "error + 'a \<Rightarrow> ('a \<Rightarrow> error + 'b) \<Rightarrow> error + 'b" where
  "bind_err r f = (case r of Inl e \<Rightarrow> Inl e | Inr v \<Rightarrow> f v)"

text \<open>
  \<^verbatim>\<open>float(k)\<close> of a Python int. The conversion is exact up to \<open>2 ^ 53\<close> in magnitude,
  rounds beyond, and raises \<^verbatim>\<open>OverflowError\<close> beyond the range of a double. The program
  applies it to numbers of rows only, which stay below these bounds, and there the
  conversion is the total and exact one below.
\<close>

definition float_of_int :: "int \<Rightarrow> pyfloat" where
  "float_of_int k = Fl (of_int k)"

text \<open>\<^verbatim>\<open>x != 0\<close> on floats: not-a-number differs from everything.\<close>

definition float_ne_zero :: "pyfloat \<Rightarrow> bool" where
  "float_ne_zero d = (case d of Fl y \<Rightarrow> y \<noteq> 0 | NaN \<Rightarrow> True)"

text \<open>\<^verbatim>\<open>x / y\<close> on floats: raises \<^verbatim>\<open>ZeroDivisionError\<close> when \<open>y\<close> is zero.\<close>

definition float_truediv :: "pyfloat \<Rightarrow> pyfloat \<Rightarrow> error + pyfloat" where
  "float_truediv n d =
     (case d of
        NaN \<Rightarrow> Inr NaN
      | Fl y \<Rightarrow>
          if y = 0 then Inl ZeroDivisionError
          else (case n of NaN \<Rightarrow> Inr NaN | Fl x \<Rightarrow> Inr (Fl (x / y))))"

text \<open>\<^verbatim>\<open>x - y\<close>, \<^verbatim>\<open>x + y\<close>, \<^verbatim>\<open>x >= y\<close> and \<^verbatim>\<open>x > y\<close> on floats.\<close>

definition float_sub :: "pyfloat \<Rightarrow> pyfloat \<Rightarrow> pyfloat" where
  "float_sub a b = (case (a, b) of (Fl x, Fl y) \<Rightarrow> Fl (x - y) | _ \<Rightarrow> NaN)"


definition float_ge :: "pyfloat \<Rightarrow> pyfloat \<Rightarrow> bool" where
  "float_ge a b = (case (a, b) of (Fl x, Fl y) \<Rightarrow> y \<le> x | _ \<Rightarrow> False)"

definition float_gt :: "pyfloat \<Rightarrow> pyfloat \<Rightarrow> bool" where
  "float_gt a b = (case (a, b) of (Fl x, Fl y) \<Rightarrow> y < x | _ \<Rightarrow> False)"

text \<open>
  Python's builtin \<^verbatim>\<open>max(a, b)\<close>: it keeps \<open>a\<close> unless \<open>b > a\<close>, so a not-a-number
  first argument is returned as it is.
\<close>

definition py_max :: "pyfloat \<Rightarrow> pyfloat \<Rightarrow> pyfloat" where
  "py_max a b = (if float_gt b a then b else a)"

section \<open>Helpers\<close>

text \<open>
  \<^verbatim>\<open>def _safe_div(n, d): return float(n) / float(d) if float(d) != 0 else float("nan")\<close>
\<close>

definition safe_div :: "pyfloat \<Rightarrow> pyfloat \<Rightarrow> error + pyfloat" where
  "safe_div n d = (if float_ne_zero d then float_truediv n d else Inr NaN)"

text \<open>
  A pandas Series is its name and its values; \<^verbatim>\<open>_as_series(x, name)\<close> is
  \<^verbatim>\<open>pd.Series(list(x), name=name)\<close>. The cells are kept as they are. That is what
  pandas does with strings and with integers up to \<open>2 ^ 53\<close> in magnitude; a larger
  integer in a column that also holds a missing value is stored as the nearest
  \<^verbatim>\<open>float64\<close>, so that two such integers can fall together. The predicates
  \<open>exact_groups\<close> and \<open>exact_cells\<close> below single out the inputs whose integers are
  stored exactly.
\<close>

type_synonym series = "string \<times> pyval list"

definition as_series :: "pyval list \<Rightarrow> string \<Rightarrow> series" where
  "as_series x name = (name, x)"

definition series_len :: "series \<Rightarrow> nat" where
  "series_len s = length (snd s)"

text \<open>
  A DataFrame is the list of its columns. \<^verbatim>\<open>pd.concat([...], axis=1)\<close> of Series
  on the same default index puts them side by side, each under its own name.
  \<^verbatim>\<open>df[name]\<close> raises \<^verbatim>\<open>KeyError\<close> for a name that is no column. \<^verbatim>\<open>df[mask]\<close>
  keeps the rows where the boolean mask is true, \<^verbatim>\<open>len(df)\<close> is the number of rows.
\<close>

type_synonym frame = "series list"

definition concat_axis1 :: "series list \<Rightarrow> frame" where
  "concat_axis1 ss = ss"

definition getitem :: "frame \<Rightarrow> string \<Rightarrow> error + pyval list" where
  "getitem df name = (case map_of df name of None \<Rightarrow> Inl (KeyError name) | Some c \<Rightarrow> Inr c)"

definition select :: "bool list \<Rightarrow> 'a list \<Rightarrow> 'a list" where
  "select msk xs = map snd (filter fst (zip msk xs))"

definition frame_select :: "bool list \<Rightarrow> frame \<Rightarrow> frame" where
  "frame_select msk df = map (\<lambda>(name, c). (name, select msk c)) df"

definition frame_len :: "frame \<Rightarrow> nat" where
  "frame_len df = (case df of [] \<Rightarrow> 0 | (name, c) # rest \<Rightarrow> length c)"

definition notna :: "pyval \<Rightarrow> bool" where
  "notna v = (v \<noteq> PNone)"

text \<open>
  Elementwise \<^verbatim>\<open>==\<close> of a column with a scalar: a missing value on either side
  compares unequal.
\<close>

definition py_eq :: "pyval \<Rightarrow> pyval \<Rightarrow> bool" where
  "py_eq v w = (v \<noteq> PNone \<and> w \<noteq> PNone \<and> v = w)"

text \<open>\<^verbatim>\<open>(col == label).astype(int)\<close>\<close>

definition eq_as_int :: "pyval list \<Rightarrow> pyval \<Rightarrow> int list" where
  "eq_as_int col label = map (\<lambda>v. if py_eq v label then 1 else 0) col"

text \<open>
  \<^verbatim>\<open>col.astype("category")\<close>: a categorical is its categories and its values. The
  categories are the distinct non-missing values in sorted order (pandas sorts numbers
  before strings); a missing value belongs to no category.
\<close>

type_synonym categorical = "pyval list \<times> pyval list"

definition ints_of :: "pyval list \<Rightarrow> int list" where
  "ints_of vs = concat (map (\<lambda>v. case v of PInt i \<Rightarrow> [i] | _ \<Rightarrow> []) vs)"

definition strs_of :: "pyval list \<Rightarrow> string list" where
  "strs_of vs = concat (map (\<lambda>v. case v of PStr s \<Rightarrow> [s] | _ \<Rightarrow> []) vs)"

definition astype_category :: "pyval list \<Rightarrow> categorical" where
  "astype_category vs =
     (map PInt (sort (remdups (ints_of vs))) @ map PStr (sort (remdups (strs_of vs))), vs)"

text \<open>
  \<^verbatim>\<open>g.cat.set_categories(new, ordered=True)\<close>: the new categories must not hold a
  missing value and must be unique (pandas raises \<^verbatim>\<open>ValueError\<close> otherwise); values
  outside the new categories become missing.
\<close>

definition set_categories :: "pyval list \<Rightarrow> categorical \<Rightarrow> error + categorical" where
  "set_categories new g =
     (if PNone \<in> set new then Inl (ValueError ''Categorical categories cannot be null'')
      else if \<not> distinct new then Inl (ValueError ''Categorical categories must be unique'')
      else Inr (new, map (\<lambda>v. if v \<in> set new then v else PNone) (snd g)))"

section \<open>Core per-group metrics\<close>

record GroupMetrics =
  group_label :: pyval
  count :: int
  positive_rate :: pyfloat
  tpr :: pyfloat
  fpr :: pyfloat
  ppv :: pyfloat
  tnr :: pyfloat
  fnr :: pyfloat

record SummaryMetrics =
  demographic_parity_difference :: pyfloat
  disparate_impact_ratio :: pyfloat
  equal_opportunity_difference :: pyfloat
  equalized_odds_difference :: pyfloat
  predictive_parity_difference :: pyfloat

text \<open>The metadata dictionary has the three keys below.\<close>

record Metadata =
  n_samples :: int
  n_groups :: int
  meta_positive_label :: pyval

record BiasReport =
  by_group :: "GroupMetrics list"
  summary :: SummaryMetrics
  metadata :: Metadata

text \<open>The arguments of \<^verbatim>\<open>BiasReport.from_arrays\<close>; an absent optional is \<open>None\<close>.\<close>

record Args =
  y_true :: "pyval list"
  y_pred :: "pyval list option"
  sensitive :: "pyval list"
  y_score :: "pyfloat list option"
  threshold :: "pyfloat option"
  positive_label :: pyval
  group_order :: "pyval list option"
  dropna_groups :: bool

text \<open>
  \<^verbatim>\<open>int(((yp == a) & (yt == b)).sum())\<close>: the number of rows whose prediction is
  \<open>a\<close> and whose truth is \<open>b\<close>.
\<close>

definition confusion :: "int \<Rightarrow> int \<Rightarrow> int list \<Rightarrow> int list \<Rightarrow> int" where
  "confusion a b yp yt = int (length (filter (\<lambda>(p, t). p = a \<and> t = b) (zip yp yt)))"

text \<open>
  The body of the loop over groups, for one group with \<open>n > 0\<close> rows: lines 166 to 188.
\<close>

definition group_metrics :: "pyval \<Rightarrow> int \<Rightarrow> int list \<Rightarrow> int list \<Rightarrow> error + GroupMetrics" where
  "group_metrics grp n yt yp =
     bind_err (safe_div (float_of_int (sum_list yp)) (float_of_int n)) (\<lambda>pos_rate.
     let tp = confusion 1 1 yp yt;
         fp = confusion 1 0 yp yt;
         tn = confusion 0 0 yp yt;
         fn = confusion 0 1 yp yt
     in
     bind_err (safe_div (float_of_int tp) (float_of_int (tp + fn))) (\<lambda>tpr_v.
     bind_err (safe_div (float_of_int fp) (float_of_int (fp + tn))) (\<lambda>fpr_v.
     bind_err (safe_div (float_of_int tp) (float_of_int (tp + fp))) (\<lambda>ppv_v.
     bind_err (safe_div (float_of_int tn) (float_of_int (tn + fp))) (\<lambda>tnr_v.
     bind_err (safe_div (float_of_int fn) (float_of_int (fn + tp))) (\<lambda>fnr_v.
     Inr \<lparr>group_label = grp, count = n, positive_rate = pos_rate, tpr = tpr_v,
          fpr = fpr_v, ppv = ppv_v, tnr = tnr_v, fnr = fnr_v\<rparr>))))))"

text \<open>
  The loop \<^verbatim>\<open>for grp in groups\<close>: the mask \<^verbatim>\<open>g == grp\<close>, the \<^verbatim>\<open>continue\<close> on an
  empty group, and the append to \<^verbatim>\<open>by_group\<close>.
\<close>

fun group_loop :: "pyval list \<Rightarrow> int list \<Rightarrow> int list \<Rightarrow> pyval list \<Rightarrow> error + GroupMetrics list" where
  "group_loop g y yhat [] = Inr []"
| "group_loop g y yhat (grp # groups) =
     (let msk = map (\<lambda>v. py_eq v grp) g;
          n = int (length (filter id msk))
      in if n = 0 then group_loop g y yhat groups
         else bind_err (group_metrics grp n (select msk y) (select msk yhat)) (\<lambda>m.
              bind_err (group_loop g y yhat groups) (\<lambda>ms. Inr (m # ms))))"

section \<open>Summary metrics\<close>

text \<open>
  \<^verbatim>\<open>np.nanmax\<close> and \<^verbatim>\<open>np.nanmin\<close>: the extremum of the values that are numbers,
  not-a-number when none is, and \<^verbatim>\<open>ValueError\<close> on an empty array.
\<close>

definition finite_vals :: "pyfloat list \<Rightarrow> rat list" where
  "finite_vals vals = concat (map (\<lambda>v. case v of Fl x \<Rightarrow> [x] | NaN \<Rightarrow> []) vals)"

definition nanmax :: "pyfloat list \<Rightarrow> error + pyfloat" where
  "nanmax vals =
     (if vals = [] then Inl (ValueError ''zero-size array to reduction operation'')
      else (case finite_vals vals of [] \<Rightarrow> Inr NaN | x # xs \<Rightarrow> Inr (Fl (fold max xs x))))"

definition nanmin :: "pyfloat list \<Rightarrow> error + pyfloat" where
  "nanmin vals =
     (if vals = [] then Inl (ValueError ''zero-size array to reduction operation'')
      else (case finite_vals vals of [] \<Rightarrow> Inr NaN | x # xs \<Rightarrow> Inr (Fl (fold min xs x))))"

text \<open>The local function \<^verbatim>\<open>span(metric)\<close>, with the metric as a field selector.\<close>

definition span :: "GroupMetrics list \<Rightarrow> (GroupMetrics \<Rightarrow> pyfloat) \<Rightarrow> error + pyfloat" where
  "span by_grp metric =
     (let vals = map metric by_grp
      in if length vals = 0 then Inr NaN
         else bind_err (nanmax vals) (\<lambda>mx.
              bind_err (nanmin vals) (\<lambda>mn. Inr (float_sub mx mn))))"

text \<open>The local function \<^verbatim>\<open>di_ratio()\<close>.\<close>

definition di_ratio :: "GroupMetrics list \<Rightarrow> error + pyfloat" where
  "di_ratio by_grp =
     (let vals = map positive_rate by_grp
      in if length vals = 0 then Inr NaN
         else bind_err (nanmax vals) (\<lambda>mx.
              bind_err (nanmin vals) (\<lambda>mn. safe_div mn mx)))"

text \<open>Lines 205 to 214: the equalized odds value and the summary.\<close>

definition summarize :: "GroupMetrics list \<Rightarrow> error + SummaryMetrics" where
  "summarize by_grp =
     bind_err (span by_grp tpr) (\<lambda>s_tpr.
     bind_err (span by_grp fpr) (\<lambda>s_fpr.
     let eod = py_max s_tpr s_fpr in
     bind_err (span by_grp positive_rate) (\<lambda>dpd.
     bind_err (di_ratio by_grp) (\<lambda>di.
     bind_err (span by_grp tpr) (\<lambda>eo.
     bind_err (span by_grp ppv) (\<lambda>ppd.
     Inr \<lparr>demographic_parity_difference = dpd, disparate_impact_ratio = di,
          equal_opportunity_difference = eo, equalized_odds_difference = eod,
          predictive_parity_difference = ppd\<rparr>))))))"

section \<open>BiasReport.from_arrays\<close>

text \<open>
  Lines 132 to 137. With \<^verbatim>\<open>y_pred\<close> absent the prediction column is
  \<^verbatim>\<open>(pd.Series(y_score, name="y_score") >= float(threshold)).astype(int)\<close>: the
  comparison and the cast keep the name of the Series, \<^verbatim>\<open>y_score\<close>.
\<close>

definition resolve_pred :: "Args \<Rightarrow> error + series" where
  "resolve_pred a =
     (case y_pred a of
        None \<Rightarrow>
          (if y_score a = None \<or> threshold a = None
           then Inl (ValueError ''Provide either y_pred, or y_score+threshold.'')
           else Inr (''y_score'',
                     map (\<lambda>s. PInt (if float_ge s (the (threshold a)) then 1 else 0))
                       (the (y_score a))))
      | Some p \<Rightarrow> Inr (as_series p ''y_pred''))"

text \<open>
  Lines 143 to 222, from the frame to the report: the optional drop of rows with a
  missing group, the normalisation against \<^verbatim>\<open>positive_label\<close>, the categorical, the
  loop, the summary and the metadata.
\<close>

definition report_of_frame :: "Args \<Rightarrow> frame \<Rightarrow> error + BiasReport" where
  "report_of_frame a df0 =
     bind_err (if dropna_groups a
               then bind_err (getitem df0 ''sensitive'') (\<lambda>s. Inr (frame_select (map notna s) df0))
               else Inr df0) (\<lambda>df.
     bind_err (getitem df ''y_true'') (\<lambda>c_true.
     let y = eq_as_int c_true (positive_label a) in
     bind_err (getitem df ''y_pred'') (\<lambda>c_pred.
     let yhat = eq_as_int c_pred (positive_label a) in
     bind_err (getitem df ''sensitive'') (\<lambda>c_sens.
     bind_err (case group_order a of
                 None \<Rightarrow> Inr (astype_category c_sens)
               | Some order \<Rightarrow> set_categories order (astype_category c_sens)) (\<lambda>g.
     let groups = fst g in
     bind_err (group_loop (snd g) y yhat groups) (\<lambda>by_grp.
     bind_err (summarize by_grp) (\<lambda>summ.
     Inr \<lparr>by_group = by_grp, summary = summ,
          metadata = \<lparr>n_samples = int (frame_len df), n_groups = int (length by_grp),
                       meta_positive_label = positive_label a\<rparr>\<rparr>)))))))"

definition from_arrays :: "Args \<Rightarrow> error + BiasReport" where
  "from_arrays a =
     (let yt = as_series (y_true a) ''y_true'' in
      bind_err (resolve_pred a) (\<lambda>yp.
      let sens = as_series (sensitive a) ''sensitive'' in
      if series_len yt \<noteq> series_len yp \<or> series_len yt \<noteq> series_len sens
      then Inl (ValueError ''y_true, y_pred/y_score, and sensitive must have the same length'')
      else report_of_frame a (concat_axis1 [yt, yp, sens])))"


section \<open>Closed forms of the computation\<close>

text \<open>
  The functions above thread a possible exception through every call. The definitions
  of this section say what they compute when nothing is raised; the lemmas further down
  prove that this is what \<open>from_arrays\<close> returns.

  \<open>ratio n d\<close> is the value of \<^verbatim>\<open>_safe_div(n, d)\<close> on Python ints, and \<open>metrics_val\<close>
  the record built by one pass of the loop body.
\<close>

definition ratio :: "int \<Rightarrow> int \<Rightarrow> pyfloat" where
  "ratio n d = (if d = 0 then NaN else Fl (of_int n / of_int d))"

definition metrics_val :: "pyval \<Rightarrow> int \<Rightarrow> int list \<Rightarrow> int list \<Rightarrow> GroupMetrics" where
  "metrics_val grp n yt yp =
     \<lparr>group_label = grp, count = n, positive_rate = ratio (sum_list yp) n,
      tpr = ratio (confusion 1 1 yp yt) (confusion 1 1 yp yt + confusion 0 1 yp yt),
      fpr = ratio (confusion 1 0 yp yt) (confusion 1 0 yp yt + confusion 0 0 yp yt),
      ppv = ratio (confusion 1 1 yp yt) (confusion 1 1 yp yt + confusion 1 0 yp yt),
      tnr = ratio (confusion 0 0 yp yt) (confusion 0 0 yp yt + confusion 1 0 yp yt),
      fnr = ratio (confusion 0 1 yp yt) (confusion 0 1 yp yt + confusion 1 1 yp yt)\<rparr>"

definition group_mask :: "pyval list \<Rightarrow> pyval \<Rightarrow> bool list" where
  "group_mask g grp = map (\<lambda>v. py_eq v grp) g"

definition group_entry :: "pyval list \<Rightarrow> int list \<Rightarrow> int list \<Rightarrow> pyval \<Rightarrow> GroupMetrics" where
  "group_entry g y yhat grp =
     metrics_val grp (int (length (filter (\<lambda>v. py_eq v grp) g)))
       (select (group_mask g grp) y) (select (group_mask g grp) yhat)"

definition span_val :: "pyfloat list \<Rightarrow> pyfloat" where
  "span_val vals =
     (if vals = [] then NaN
      else (case finite_vals vals of [] \<Rightarrow> NaN | x # xs \<Rightarrow> Fl (fold max xs x - fold min xs x)))"

definition di_val :: "pyfloat list \<Rightarrow> pyfloat" where
  "di_val vals =
     (if vals = [] then NaN
      else (case finite_vals vals of [] \<Rightarrow> NaN
            | x # xs \<Rightarrow> if fold max xs x = 0 then NaN else Fl (fold min xs x / fold max xs x)))"

definition summary_val :: "GroupMetrics list \<Rightarrow> SummaryMetrics" where
  "summary_val ms =
     \<lparr>demographic_parity_difference = span_val (map positive_rate ms),
      disparate_impact_ratio = di_val (map positive_rate ms),
      equal_opportunity_difference = span_val (map tpr ms),
      equalized_odds_difference = py_max (span_val (map tpr ms)) (span_val (map fpr ms)),
      predictive_parity_difference = span_val (map ppv ms)\<rparr>"

text \<open>
  \<open>kept a xs\<close> is a column after the optional drop of the rows with a missing group;
  \<open>group_names\<close> and \<open>group_values\<close> are the categories and the values of the
  categorical \<^verbatim>\<open>g\<close>, and \<open>order_ok\<close> says that \<^verbatim>\<open>set_categories\<close> accepts
  \<^verbatim>\<open>group_order\<close>.
\<close>

definition kept :: "Args \<Rightarrow> 'a list \<Rightarrow> 'a list" where
  "kept a xs = (if dropna_groups a then select (map notna (sensitive a)) xs else xs)"

definition group_names :: "Args \<Rightarrow> pyval list" where
  "group_names a =
     (case group_order a of
        None \<Rightarrow> fst (astype_category (kept a (sensitive a)))
      | Some order \<Rightarrow> order)"

definition group_values :: "Args \<Rightarrow> pyval list" where
  "group_values a =
     (case group_order a of
        None \<Rightarrow> kept a (sensitive a)
      | Some order \<Rightarrow> map (\<lambda>v. if v \<in> set order then v else PNone) (kept a (sensitive a)))"

definition order_ok :: "Args \<Rightarrow> bool" where
  "order_ok a = (case group_order a of None \<Rightarrow> True | Some order \<Rightarrow> PNone \<notin> set order \<and> distinct order)"

definition entries :: "Args \<Rightarrow> pyval list \<Rightarrow> GroupMetrics list" where
  "entries a p =
     map (group_entry (group_values a) (eq_as_int (kept a (y_true a)) (positive_label a))
            (eq_as_int (kept a p) (positive_label a)))
       (filter (\<lambda>grp. \<exists>v \<in> set (group_values a). py_eq v grp) (group_names a))"

definition expected_report :: "Args \<Rightarrow> pyval list \<Rightarrow> BiasReport" where
  "expected_report a p =
     \<lparr>by_group = entries a p, summary = summary_val (entries a p),
      metadata = \<lparr>n_samples = int (length (kept a (y_true a))),
                   n_groups = int (length (entries a p)),
                   meta_positive_label = positive_label a\<rparr>\<rparr>"

text \<open>
  The same result read off the input rows: \<open>rows_of grp ss xs\<close> are the cells of the
  column \<open>xs\<close> in the rows whose group is \<open>grp\<close>.
\<close>

definition rows_of :: "pyval \<Rightarrow> pyval list \<Rightarrow> 'a list \<Rightarrow> 'a list" where
  "rows_of grp ss xs = select (map (\<lambda>s. s = grp) ss) xs"

definition row_entry :: "Args \<Rightarrow> pyval list \<Rightarrow> pyval \<Rightarrow> GroupMetrics" where
  "row_entry a p grp =
     metrics_val grp (int (length (filter (\<lambda>s. s = grp) (sensitive a))))
       (eq_as_int (rows_of grp (sensitive a) (y_true a)) (positive_label a))
       (eq_as_int (rows_of grp (sensitive a) p) (positive_label a))"

definition names :: "Args \<Rightarrow> pyval list" where
  "names a =
     (case group_order a of
        None \<Rightarrow> fst (astype_category (sensitive a))
      | Some order \<Rightarrow> order)"

section \<open>Notions used to state the properties\<close>

text \<open>
  A rate is acceptable when it lies in the closed unit interval or is not-a-number.
\<close>

definition unit_or_nan :: "pyfloat \<Rightarrow> bool" where
  "unit_or_nan v = (case v of NaN \<Rightarrow> True | Fl x \<Rightarrow> 0 \<le> x \<and> x \<le> 1)"

text \<open>
  The two conditions under which the documentation promises a validation error, and
  the two errors \<open>from_arrays\<close> raises itself.
\<close>

definition pred_length :: "Args \<Rightarrow> nat option" where
  "pred_length a =
     (case y_pred a of
        Some p \<Rightarrow> Some (length p)
      | None \<Rightarrow> (case y_score a of Some sc \<Rightarrow> Some (length sc) | None \<Rightarrow> None))"

definition no_prediction_source :: "Args \<Rightarrow> bool" where
  "no_prediction_source a \<longleftrightarrow> y_pred a = None \<and> (y_score a = None \<or> threshold a = None)"

definition lengths_differ :: "Args \<Rightarrow> bool" where
  "lengths_differ a \<longleftrightarrow>
     pred_length a \<noteq> Some (length (y_true a)) \<or> length (sensitive a) \<noteq> length (y_true a)"

definition validation_error :: "error \<Rightarrow> bool" where
  "validation_error e \<longleftrightarrow>
     e = ValueError ''Provide either y_pred, or y_score+threshold.'' \<or>
     e = ValueError ''y_true, y_pred/y_score, and sensitive must have the same length''"

text \<open>
  The inputs whose integer cells pandas stores and compares exactly, whatever the type
  of the column: for the group values alone, and for all cells.
\<close>

definition exact_int :: "pyval \<Rightarrow> bool" where
  "exact_int v = (case v of PInt i \<Rightarrow> abs i \<le> 2 ^ 53 | PStr s \<Rightarrow> True | PNone \<Rightarrow> True)"

definition exact_groups :: "Args \<Rightarrow> bool" where
  "exact_groups a \<longleftrightarrow>
     list_all exact_int (sensitive a) \<and>
     (case group_order a of None \<Rightarrow> True | Some order \<Rightarrow> list_all exact_int order)"


text \<open>
  The distinct group values that occur in the input, and the input without the rows
  whose group value is not listed in an explicit group order.
\<close>

definition present_groups :: "Args \<Rightarrow> pyval set" where
  "present_groups a = set (sensitive a) - {PNone}"


section \<open>Concrete runs\<close>

text \<open>
  The scenario of \<^verbatim>\<open>tests/test_bias_check.py\<close> and its report.
\<close>

definition test_input :: Args where
  "test_input =
     \<lparr>y_true = map PInt [0, 1, 1, 0, 1, 0, 1, 0],
      y_pred = Some (map PInt [0, 1, 0, 0, 1, 0, 1, 1]),
      sensitive = map PStr [''A'', ''A'', ''B'', ''B'', ''A'', ''B'', ''A'', ''B''],
      y_score = None, threshold = None, positive_label = PInt 1,
      group_order = None, dropna_groups = False\<rparr>"

definition test_group_A :: GroupMetrics where
  "test_group_A =
     \<lparr>group_label = PStr ''A'', count = 4, positive_rate = Fl (3 / 4),
      tpr = Fl 1, fpr = Fl 0, ppv = Fl 1, tnr = Fl 1, fnr = Fl 0\<rparr>"

definition test_group_B :: GroupMetrics where
  "test_group_B =
     \<lparr>group_label = PStr ''B'', count = 4, positive_rate = Fl (1 / 4),
      tpr = Fl 0, fpr = Fl (1 / 3), ppv = Fl 0, tnr = Fl (2 / 3), fnr = Fl 1\<rparr>"

definition test_report :: BiasReport where
  "test_report =
     \<lparr>by_group = [test_group_A, test_group_B],
      summary =
        \<lparr>demographic_parity_difference = Fl (1 / 2), disparate_impact_ratio = Fl (1 / 3),
         equal_opportunity_difference = Fl 1, equalized_odds_difference = Fl 1,
         predictive_parity_difference = Fl 1\<rparr>,
      metadata = \<lparr>n_samples = 8, n_groups = 2, meta_positive_label = PInt 1\<rparr>\<rparr>"

text \<open>
  The same scenario with the explicit group order \<^verbatim>\<open>["B"]\<close>.
\<close>

definition listed_input :: Args where
  "listed_input = test_input\<lparr>group_order := Some [PStr ''B'']\<rparr>"

definition listed_report :: BiasReport where
  "listed_report =
     \<lparr>by_group = [test_group_B],
      summary =
        \<lparr>demographic_parity_difference = Fl 0, disparate_impact_ratio = Fl 1,
         equal_opportunity_difference = Fl 0, equalized_odds_difference = Fl 0,
         predictive_parity_difference = Fl 0\<rparr>,
      metadata = \<lparr>n_samples = 8, n_groups = 1, meta_positive_label = PInt 1\<rparr>\<rparr>"

text \<open>
  One group of two samples.
\<close>

definition single_group_input :: Args where
  "single_group_input =
     \<lparr>y_true = [PInt 1, PInt 0], y_pred = Some [PInt 1, PInt 0],
      sensitive = [PStr ''A'', PStr ''A''], y_score = None, threshold = None,
      positive_label = PInt 1, group_order = None, dropna_groups = False\<rparr>"

definition single_group_report :: BiasReport where
  "single_group_report =
     \<lparr>by_group =
        [\<lparr>group_label = PStr ''A'', count = 2, positive_rate = Fl (1 / 2),
          tpr = Fl 1, fpr = Fl 0, ppv = Fl 1, tnr = Fl 1, fnr = Fl 0\<rparr>],
      summary =
        \<lparr>demographic_parity_difference = Fl 0, disparate_impact_ratio = Fl 1,
         equal_opportunity_difference = Fl 0, equalized_odds_difference = Fl 0,
         predictive_parity_difference = Fl 0\<rparr>,
      metadata = \<lparr>n_samples = 2, n_groups = 1, meta_positive_label = PInt 1\<rparr>\<rparr>"

text \<open>
  Rows with a missing group, dropped on request; the one group left has no positive
  truth. Then the same with every group missing.
\<close>

definition missing_input :: Args where
  "missing_input =
     \<lparr>y_true = [PInt 1, PInt 0, PInt 1], y_pred = Some [PInt 1, PInt 1, PInt 0],
      sensitive = [PNone, PStr ''A'', PNone], y_score = None, threshold = None,
      positive_label = PInt 1, group_order = None, dropna_groups = True\<rparr>"

definition missing_group :: GroupMetrics where
  "missing_group =
     \<lparr>group_label = PStr ''A'', count = 1, positive_rate = Fl 1,
      tpr = NaN, fpr = Fl 1, ppv = Fl 0, tnr = Fl 0, fnr = NaN\<rparr>"

definition missing_report :: BiasReport where
  "missing_report =
     \<lparr>by_group = [missing_group],
      summary =
        \<lparr>demographic_parity_difference = Fl 0, disparate_impact_ratio = Fl 1,
         equal_opportunity_difference = NaN, equalized_odds_difference = NaN,
         predictive_parity_difference = Fl 0\<rparr>,
      metadata = \<lparr>n_samples = 1, n_groups = 1, meta_positive_label = PInt 1\<rparr>\<rparr>"

definition no_group_input :: Args where
  "no_group_input = missing_input\<lparr>sensitive := [PNone, PNone, PNone]\<rparr>"

definition no_group_report :: BiasReport where
  "no_group_report =
     \<lparr>by_group = [],
      summary =
        \<lparr>demographic_parity_difference = NaN, disparate_impact_ratio = NaN,
         equal_opportunity_difference = NaN, equalized_odds_difference = NaN,
         predictive_parity_difference = NaN\<rparr>,
      metadata = \<lparr>n_samples = 0, n_groups = 0, meta_positive_label = PInt 1\<rparr>\<rparr>"



text \<open>
  Scores with a threshold and no predictions; the same without the threshold; an
  explicit group order that repeats a group.
\<close>

definition score_input :: Args where
  "score_input =
     \<lparr>y_true = [PInt 1, PInt 0], y_pred = None, sensitive = [PStr ''A'', PStr ''A''],
      y_score = Some [Fl (9 / 10), Fl (1 / 10)], threshold = Some (Fl (1 / 2)),
      positive_label = PInt 1, group_order = None, dropna_groups = False\<rparr>"

definition no_source_input :: Args where
  "no_source_input = score_input\<lparr>threshold := None\<rparr>"

definition dup_order_input :: Args where
  "dup_order_input =
     \<lparr>y_true = [PInt 1, PInt 0], y_pred = Some [PInt 1, PInt 0],
      sensitive = [PStr ''A'', PStr ''B''], y_score = None, threshold = None,
      positive_label = PInt 1, group_order = Some [PStr ''A'', PStr ''A''],
      dropna_groups = False\<rparr>"

section \<open>Lemmas: division, masks and the loop\<close>

lemma safe_div_total:
  "safe_div n d = Inr (case d of NaN \<Rightarrow> NaN
                       | Fl y \<Rightarrow> if y = 0 then NaN else (case n of NaN \<Rightarrow> NaN | Fl x \<Rightarrow> Fl (x / y)))"
  by (simp add: safe_div_def float_ne_zero_def float_truediv_def split: pyfloat.splits)

lemma safe_div_ints: "safe_div (float_of_int n) (float_of_int d) = Inr (ratio n d)"
  by (simp add: safe_div_total float_of_int_def ratio_def)

lemma bind_err_Inr [simp]: "bind_err (Inr v) f = f v"
  by (simp add: bind_err_def)

lemma bind_err_Inl [simp]: "bind_err (Inl e) f = Inl e"
  by (simp add: bind_err_def)

lemma group_metrics_eq: "group_metrics grp n yt yp = Inr (metrics_val grp n yt yp)"
  by (simp add: group_metrics_def safe_div_ints Let_def metrics_val_def)


lemma length_select_map:
  "length xs = length ss \<Longrightarrow> length (select (map f ss) xs) = length (filter f ss)"
proof (induction ss arbitrary: xs)
  case Nil
  then show ?case by (simp add: select_def)
next
  case (Cons s ss)
  then obtain x xs' where "xs = x # xs'" by (cases xs) auto
  with Cons show ?case by (simp add: select_def)
qed

lemma select_map_values: "select msk (map h xs) = map h (select msk xs)"
  by (simp add: select_def zip_map2 filter_map comp_def case_prod_unfold)

lemma select_self: "select (map f ss) ss = filter f ss"
  by (induction ss) (simp_all add: select_def)

lemma select_select:
  "length xs = length ss \<Longrightarrow>
   select (map f (filter g ss)) (select (map g ss) xs) = select (map (\<lambda>s. g s \<and> f s) ss) xs"
  by (induction xs ss rule: list_induct2) (simp_all add: select_def)

lemma length_filter_id_map: "length (filter id (map f xs)) = length (filter f xs)"
  by (simp add: filter_map comp_def)

lemma filter_id_map_empty: "filter id (map f xs) = [] \<longleftrightarrow> \<not> (\<exists>x \<in> set xs. f x)"
  by (auto simp: filter_empty_conv)

lemma confusion_nonneg: "0 \<le> confusion a b yp yt"
  by (simp add: confusion_def)

lemma ratio_unit: "0 \<le> n \<Longrightarrow> n \<le> d \<Longrightarrow> unit_or_nan (ratio n d)"
  by (simp add: ratio_def unit_or_nan_def divide_le_eq_1)

lemma sum_list_bits: "set xs \<subseteq> {0, 1} \<Longrightarrow> 0 \<le> sum_list xs \<and> sum_list xs \<le> int (length xs)"
  by (induction xs) auto

lemma set_eq_as_int: "set (eq_as_int col label) \<subseteq> {0, 1}"
  by (auto simp: eq_as_int_def)

lemma group_loop_eq:
  "group_loop g y yhat groups =
     Inr (map (group_entry g y yhat) (filter (\<lambda>grp. \<exists>v \<in> set g. py_eq v grp) groups))"
proof (induction groups)
  case Nil
  show ?case by simp
next
  case (Cons grp groups)
  show ?case
  proof (cases "\<exists>v \<in> set g. py_eq v grp")
    case True
    then have "filter id (map (\<lambda>v. py_eq v grp) g) \<noteq> []"
      by (simp add: filter_id_map_empty)
    moreover have "group_metrics grp (int (length (filter id (map (\<lambda>v. py_eq v grp) g))))
                     (select (map (\<lambda>v. py_eq v grp) g) y) (select (map (\<lambda>v. py_eq v grp) g) yhat)
                   = Inr (group_entry g y yhat grp)"
      by (simp add: group_metrics_eq group_entry_def group_mask_def length_filter_id_map)
    ultimately show ?thesis
      using True Cons.IH by (simp add: Let_def)
  next
    case False
    then have "filter id (map (\<lambda>v. py_eq v grp) g) = []"
      by (simp add: filter_id_map_empty)
    with False Cons.IH show ?thesis
      by (simp add: Let_def)
  qed
qed

section \<open>Lemmas: the summary\<close>

lemma span_eq: "span ms metric = Inr (span_val (map metric ms))"
  by (cases "finite_vals (map metric ms)")
     (simp_all add: span_def span_val_def nanmax_def nanmin_def float_sub_def Let_def)

lemma di_ratio_eq: "di_ratio ms = Inr (di_val (map positive_rate ms))"
  by (cases "finite_vals (map positive_rate ms)")
     (simp_all add: di_ratio_def di_val_def nanmax_def nanmin_def safe_div_total Let_def)

lemma summarize_eq: "summarize ms = Inr (summary_val ms)"
  by (simp add: summarize_def span_eq di_ratio_eq summary_val_def Let_def)

lemma finite_vals_all:
  "\<forall>v \<in> set vals. v \<noteq> NaN \<Longrightarrow> map Fl (finite_vals vals) = vals"
proof (induction vals)
  case Nil
  show ?case by (simp add: finite_vals_def)
next
  case (Cons v vals)
  then show ?case by (cases v) (simp_all add: finite_vals_def)
qed

lemma span_val_Nil [simp]: "span_val [] = NaN"
  by (simp add: span_val_def)

lemma span_val_range:
  assumes "finite_vals vals = qs" "qs \<noteq> []"
  shows "span_val vals = Fl (Max (set qs) - Min (set qs))"
proof -
  from assms obtain x xs where qs: "qs = x # xs" by (cases qs) auto
  from assms have "vals \<noteq> []" by (auto simp: finite_vals_def)
  with assms(1) qs show ?thesis
    by (simp add: span_val_def Max.set_eq_fold Min.set_eq_fold del: set_simps)
qed

lemma span_val_nonneg:
  assumes "span_val vals = Fl x"
  shows "0 \<le> x"
proof (cases "finite_vals vals")
  case Nil
  with assms show ?thesis by (simp add: span_val_def split: if_splits)
next
  case (Cons q qs)
  then have "span_val vals = Fl (Max (set (q # qs)) - Min (set (q # qs)))"
    by (intro span_val_range) simp_all
  moreover have "Min (set (q # qs)) \<le> Max (set (q # qs))"
    by (intro Min_le_iff [THEN iffD2] bexI [of _ "Max (set (q # qs))"] Max_in) simp_all
  ultimately show ?thesis using assms by simp
qed

lemma span_val_single: "span_val [v] = (if v = NaN then NaN else Fl 0)"
  by (cases v) (simp_all add: span_val_def finite_vals_def)

lemma di_val_single: "di_val [Fl q] = (if q = 0 then NaN else Fl 1)"
  by (simp add: di_val_def finite_vals_def)

lemma py_max_single: "py_max (if c then NaN else Fl 0) (if d then NaN else Fl 0) = (if c then NaN else Fl 0)"
  by (simp add: py_max_def float_gt_def)

section \<open>Lemmas: what from_arrays returns\<close>

lemma report_of_frame_pred:
  assumes "order_ok a"
  shows "report_of_frame a [(''y_true'', y_true a), (''y_pred'', p), (''sensitive'', sensitive a)]
         = Inr (expected_report a p)"
proof (cases "group_order a")
  case None
  then show ?thesis
    by (simp add: report_of_frame_def getitem_def frame_select_def frame_len_def Let_def
        group_loop_eq summarize_eq expected_report_def entries_def kept_def group_names_def
        group_values_def astype_category_def)
next
  case (Some order)
  with assms have "PNone \<notin> set order" "distinct order"
    by (simp_all add: order_ok_def)
  with Some show ?thesis
    by (simp add: report_of_frame_def getitem_def frame_select_def frame_len_def Let_def
        group_loop_eq summarize_eq expected_report_def entries_def kept_def group_names_def
        group_values_def astype_category_def set_categories_def)
qed

lemma report_of_frame_bad_order:
  assumes "\<not> order_ok a"
  shows "report_of_frame a [(''y_true'', y_true a), (''y_pred'', p), (''sensitive'', sensitive a)]
           = Inl (ValueError ''Categorical categories cannot be null'') \<or>
         report_of_frame a [(''y_true'', y_true a), (''y_pred'', p), (''sensitive'', sensitive a)]
           = Inl (ValueError ''Categorical categories must be unique'')"
proof -
  from assms obtain order where o: "group_order a = Some order" "PNone \<in> set order \<or> \<not> distinct order"
    by (auto simp: order_ok_def split: option.splits)
  then show ?thesis
    by (auto simp: report_of_frame_def getitem_def frame_select_def Let_def set_categories_def)
qed

lemma report_of_frame_score:
  "report_of_frame a [(''y_true'', t), (''y_score'', p), (''sensitive'', s)] = Inl (KeyError ''y_pred'')"
  by (simp add: report_of_frame_def getitem_def frame_select_def Let_def)

lemma from_arrays_pred:
  assumes "y_pred a = Some p" "length (y_true a) = length p"
    "length (y_true a) = length (sensitive a)" "order_ok a"
  shows "from_arrays a = Inr (expected_report a p)"
  using assms
  by (simp add: from_arrays_def resolve_pred_def as_series_def series_len_def concat_axis1_def
      report_of_frame_pred Let_def)

lemma from_arrays_score:
  assumes "y_pred a = None" "y_score a = Some sc" "threshold a = Some th"
    "length (y_true a) = length sc" "length (y_true a) = length (sensitive a)"
  shows "from_arrays a = Inl (KeyError ''y_pred'')"
  using assms
  by (simp add: from_arrays_def resolve_pred_def as_series_def series_len_def concat_axis1_def
      report_of_frame_score Let_def)

lemma from_arrays_InrD:
  assumes "from_arrays a = Inr r"
  shows "\<exists>p. y_pred a = Some p \<and> length (y_true a) = length p \<and>
             length (y_true a) = length (sensitive a) \<and> order_ok a \<and> r = expected_report a p"
proof (cases "y_pred a")
  case None
  with assms show ?thesis
    by (auto simp: from_arrays_def resolve_pred_def as_series_def series_len_def concat_axis1_def
        report_of_frame_score Let_def split: if_splits)
next
  case (Some p)
  with assms have len: "length (y_true a) = length p" "length (y_true a) = length (sensitive a)"
    by (auto simp: from_arrays_def resolve_pred_def as_series_def series_len_def Let_def
        split: if_splits)
  have ok: "order_ok a"
  proof (rule ccontr)
    assume "\<not> order_ok a"
    from report_of_frame_bad_order [OF this, of p] Some len assms show False
      by (auto simp: from_arrays_def resolve_pred_def as_series_def series_len_def
          concat_axis1_def Let_def)
  qed
  from from_arrays_pred [OF Some len ok] assms Some len ok show ?thesis
    by simp
qed

lemma from_arrays_no_source:
  "no_prediction_source a \<Longrightarrow>
   from_arrays a = Inl (ValueError ''Provide either y_pred, or y_score+threshold.'')"
  by (auto simp: no_prediction_source_def from_arrays_def resolve_pred_def Let_def)

lemma from_arrays_lengths:
  assumes "\<not> no_prediction_source a" "lengths_differ a"
  shows "from_arrays a =
         Inl (ValueError ''y_true, y_pred/y_score, and sensitive must have the same length'')"
proof (cases "y_pred a")
  case None
  with assms(1) obtain sc th where "y_score a = Some sc" "threshold a = Some th"
    by (auto simp: no_prediction_source_def)
  with None assms(2) show ?thesis
    by (auto simp: lengths_differ_def pred_length_def from_arrays_def resolve_pred_def
        as_series_def series_len_def Let_def)
next
  case (Some p)
  with assms(2) show ?thesis
    by (auto simp: lengths_differ_def pred_length_def from_arrays_def resolve_pred_def
        as_series_def series_len_def Let_def)
qed

lemma from_arrays_other_errors:
  assumes "\<not> no_prediction_source a" "\<not> lengths_differ a" "from_arrays a = Inl e"
  shows "e = KeyError ''y_pred'' \<or> e = ValueError ''Categorical categories cannot be null'' \<or>
         e = ValueError ''Categorical categories must be unique''"
proof (cases "y_pred a")
  case None
  with assms(1) obtain sc th where st: "y_score a = Some sc" "threshold a = Some th"
    by (auto simp: no_prediction_source_def)
  with None assms(2) have "length (y_true a) = length sc" "length (y_true a) = length (sensitive a)"
    by (simp_all add: lengths_differ_def pred_length_def)
  from from_arrays_score [OF None st this] assms(3) show ?thesis by simp
next
  case (Some p)
  with assms(2) have len: "length (y_true a) = length p" "length (y_true a) = length (sensitive a)"
    by (simp_all add: lengths_differ_def pred_length_def)
  show ?thesis
  proof (cases "order_ok a")
    case True
    from from_arrays_pred [OF Some len True] assms(3) show ?thesis by simp
  next
    case False
    from report_of_frame_bad_order [OF False, of p] Some len assms(3) show ?thesis
      by (auto simp: from_arrays_def resolve_pred_def as_series_def series_len_def
          concat_axis1_def Let_def)
  qed
qed

section \<open>Lemmas: the report in terms of the input rows\<close>

lemma length_filter_notna:
  "int (length (filter notna ss)) = int (length ss) - int (length (filter (\<lambda>v. v = PNone) ss))"
  using sum_length_filter_compl [of notna ss] by (simp add: notna_def)

lemma ints_of_filter_notna: "ints_of (filter notna ss) = ints_of ss"
  by (induction ss) (simp_all add: ints_of_def notna_def split: pyval.splits)

lemma strs_of_filter_notna: "strs_of (filter notna ss) = strs_of ss"
  by (induction ss) (simp_all add: strs_of_def notna_def split: pyval.splits)

lemma group_names_eq: "group_names a = names a"
  by (simp add: group_names_def names_def kept_def astype_category_def select_self
      ints_of_filter_notna strs_of_filter_notna split: option.splits)

lemma set_ints_of: "set (ints_of vs) = {i. PInt i \<in> set vs}"
  by (induction vs) (auto simp: ints_of_def split: pyval.splits)

lemma set_strs_of: "set (strs_of vs) = {s. PStr s \<in> set vs}"
  by (induction vs) (auto simp: strs_of_def split: pyval.splits)

lemma set_categories_of: "set (fst (astype_category vs)) = set vs - {PNone}"
proof -
  have "\<And>v. v \<in> set vs \<Longrightarrow> v \<noteq> PNone \<Longrightarrow> v \<in> PInt ` {i. PInt i \<in> set vs} \<union> PStr ` {s. PStr s \<in> set vs}"
    by (case_tac v) auto
  then show ?thesis
    by (auto simp: astype_category_def set_ints_of set_strs_of)
qed

lemma distinct_categories_of: "distinct (fst (astype_category vs))"
  by (auto simp: astype_category_def distinct_map inj_on_def)

lemma names_ok:
  assumes "order_ok a"
  shows "distinct (names a)" and "PNone \<notin> set (names a)"
  using assms
  by (auto simp: names_def order_ok_def distinct_categories_of set_categories_of split: option.splits)

lemma group_mask_values:
  assumes "grp \<noteq> PNone" "grp \<in> set (names a)"
  shows "map (\<lambda>v. py_eq v grp) (group_values a) = map (\<lambda>s. s = grp) (kept a (sensitive a))"
  using assms
  by (auto simp: group_values_def names_def py_eq_def split: option.splits)

lemma kept_rows:
  assumes "grp \<noteq> PNone" "length xs = length (sensitive a)"
  shows "select (map (\<lambda>s. s = grp) (kept a (sensitive a))) (kept a xs) = rows_of grp (sensitive a) xs"
proof (cases "dropna_groups a")
  case True
  have "(\<lambda>s. notna s \<and> s = grp) = (\<lambda>s. s = grp)"
    using assms(1) by (auto simp: notna_def)
  with True assms(2) show ?thesis
    by (simp add: kept_def select_self select_select rows_of_def)
next
  case False
  then show ?thesis by (simp add: kept_def rows_of_def)
qed

lemma kept_count:
  assumes "grp \<noteq> PNone"
  shows "filter (\<lambda>s. s = grp) (kept a (sensitive a)) = filter (\<lambda>s. s = grp) (sensitive a)"
proof -
  have "(\<lambda>s. notna s \<and> s = grp) = (\<lambda>s. s = grp)"
    using assms by (auto simp: notna_def)
  then show ?thesis
    by (simp add: kept_def select_self)
qed

lemma group_entry_rows:
  assumes "grp \<noteq> PNone" "grp \<in> set (names a)"
    "length (y_true a) = length (sensitive a)" "length p = length (sensitive a)"
  shows "group_entry (group_values a) (eq_as_int (kept a (y_true a)) (positive_label a))
           (eq_as_int (kept a p) (positive_label a)) grp = row_entry a p grp"
proof -
  have m: "map (\<lambda>v. py_eq v grp) (group_values a) = map (\<lambda>s. s = grp) (kept a (sensitive a))"
    by (rule group_mask_values [OF assms(1,2)])
  have c: "length (filter (\<lambda>v. py_eq v grp) (group_values a)) = length (filter (\<lambda>s. s = grp) (sensitive a))"
  proof -
    have "length (filter (\<lambda>v. py_eq v grp) (group_values a))
          = length (filter id (map (\<lambda>v. py_eq v grp) (group_values a)))"
      by (simp add: length_filter_id_map)
    also have "\<dots> = length (filter (\<lambda>s. s = grp) (kept a (sensitive a)))"
      by (simp only: m length_filter_id_map)
    finally show ?thesis by (simp add: kept_count [OF assms(1)])
  qed
  show ?thesis
    by (simp add: group_entry_def row_entry_def group_mask_def m c eq_as_int_def
        select_map_values kept_rows [OF assms(1)] assms(3,4))
qed

lemma group_present:
  assumes "grp \<noteq> PNone" "grp \<in> set (names a)"
  shows "(\<exists>v \<in> set (group_values a). py_eq v grp) \<longleftrightarrow> grp \<in> set (sensitive a)"
proof -
  have "(\<exists>v \<in> set (group_values a). py_eq v grp) \<longleftrightarrow> filter id (map (\<lambda>v. py_eq v grp) (group_values a)) \<noteq> []"
    by (simp add: filter_id_map_empty)
  also have "\<dots> \<longleftrightarrow> filter (\<lambda>s. s = grp) (kept a (sensitive a)) \<noteq> []"
    by (simp only: group_mask_values [OF assms]) (simp add: filter_map comp_def)
  also have "\<dots> \<longleftrightarrow> grp \<in> set (sensitive a)"
    by (simp add: kept_count [OF assms(1)] filter_empty_conv)
  finally show ?thesis .
qed

lemma entries_rows:
  assumes "order_ok a" "length (y_true a) = length (sensitive a)" "length p = length (sensitive a)"
  shows "entries a p = map (row_entry a p) (filter (\<lambda>grp. grp \<in> set (sensitive a)) (names a))"
proof -
  have ne: "\<And>grp. grp \<in> set (names a) \<Longrightarrow> grp \<noteq> PNone"
    using names_ok(2) [OF assms(1)] by auto
  have f: "filter (\<lambda>grp. \<exists>v \<in> set (group_values a). py_eq v grp) (names a)
           = filter (\<lambda>grp. grp \<in> set (sensitive a)) (names a)"
    by (rule filter_cong [OF refl]) (simp add: group_present ne)
  show ?thesis
    unfolding entries_def group_names_eq f
    by (rule map_cong [OF refl]) (simp add: group_entry_rows ne assms(2,3))
qed

lemma length_kept:
  "length xs = length (sensitive a) \<Longrightarrow>
   int (length (kept a xs)) =
     int (length xs) - (if dropna_groups a then int (length (filter (\<lambda>v. v = PNone) (sensitive a))) else 0)"
  by (simp add: kept_def length_select_map length_filter_notna)

lemma from_arrays_report:
  assumes "from_arrays a = Inr r"
  obtains p where "y_pred a = Some p" "length (y_true a) = length (sensitive a)"
    "length p = length (sensitive a)" "order_ok a"
    "by_group r = map (row_entry a p) (filter (\<lambda>grp. grp \<in> set (sensitive a)) (names a))"
    "summary r = summary_val (by_group r)"
    "n_samples (metadata r) = int (length (y_true a)) -
       (if dropna_groups a then int (length (filter (\<lambda>v. v = PNone) (sensitive a))) else 0)"
    "n_groups (metadata r) = int (length (by_group r))"
    "meta_positive_label (metadata r) = positive_label a"
proof -
  from from_arrays_InrD [OF assms] obtain p where
    p: "y_pred a = Some p" "length (y_true a) = length p"
      "length (y_true a) = length (sensitive a)" "order_ok a" "r = expected_report a p"
    by blast
  then have lp: "length p = length (sensitive a)" by simp
  show thesis
  proof (rule that [of p])
    show "by_group r = map (row_entry a p) (filter (\<lambda>grp. grp \<in> set (sensitive a)) (names a))"
      by (simp add: p(5) expected_report_def entries_rows [OF p(4) p(3) lp])
    show "n_samples (metadata r) = int (length (y_true a)) -
       (if dropna_groups a then int (length (filter (\<lambda>v. v = PNone) (sensitive a))) else 0)"
      using length_kept [OF p(3)] by (simp add: p(5) expected_report_def)
  qed (simp_all add: p lp expected_report_def)
qed


lemma length_rows_of:
  "length xs = length ss \<Longrightarrow> length (rows_of grp ss xs) = length (filter (\<lambda>s. s = grp) ss)"
  by (simp add: rows_of_def length_select_map)


lemma metrics_val_unit:
  assumes "set yp \<subseteq> {0, 1}" "n = int (length yp)"
  shows "unit_or_nan (positive_rate (metrics_val grp n yt yp))"
    and "unit_or_nan (tpr (metrics_val grp n yt yp))"
    and "unit_or_nan (fpr (metrics_val grp n yt yp))"
    and "unit_or_nan (ppv (metrics_val grp n yt yp))"
    and "unit_or_nan (tnr (metrics_val grp n yt yp))"
    and "unit_or_nan (fnr (metrics_val grp n yt yp))"
  using sum_list_bits [OF assms(1)] assms(2)
  by (simp_all add: metrics_val_def ratio_unit confusion_nonneg)

lemma by_group_member:
  assumes "by_group r = map (row_entry a p) (filter (\<lambda>grp. grp \<in> set (sensitive a)) (names a))"
    "m \<in> set (by_group r)"
  obtains grp where "m = row_entry a p grp" "grp \<in> set (sensitive a)" "grp \<in> set (names a)"
  using assms by auto

lemma group_label_row_entry [simp]: "group_label (row_entry a p grp) = grp"
  by (simp add: row_entry_def metrics_val_def)



lemma positive_rate_finite:
  assumes "grp \<in> set (sensitive a)"
  shows "positive_rate (row_entry a p grp) \<noteq> NaN"
proof -
  from assms have "filter (\<lambda>s. s = grp) (sensitive a) \<noteq> []"
    by (auto simp: filter_empty_conv)
  then show ?thesis
    by (simp add: row_entry_def metrics_val_def ratio_def)
qed

section \<open>Lemmas: rows outside an explicit group order\<close>







section \<open>Lemmas: the concrete runs\<close>

lemma test_run: "from_arrays test_input = Inr test_report"
  by code_simp

lemma listed_run: "from_arrays listed_input = Inr listed_report"
  by code_simp

lemma single_group_run: "from_arrays single_group_input = Inr single_group_report"
  by code_simp

lemma missing_run: "from_arrays missing_input = Inr missing_report"
  by code_simp

lemma no_group_run: "from_arrays no_group_input = Inr no_group_report"
  by code_simp


section \<open>The properties\<close>

subsection \<open>C1: summary values with fewer than two groups\<close>

text \<open>
  Claim C1 says that with zero or one non-empty group each of the five summary values
  is not-a-number. The guard of \<^verbatim>\<open>span\<close> and \<^verbatim>\<open>di_ratio\<close> is \<^verbatim>\<open>len(vals) == 0\<close>:
  it covers zero groups only. With one group the maximum and the minimum coincide, so
  a difference is 0 and the ratio is 1, unless the rate of that group is itself
  not-a-number (or the selection rate is 0, for the ratio).

  C1, as amended: with no group in the output all five summary values are not-a-number;
  with exactly one group the demographic parity difference is 0, the disparate impact
  ratio is 1 (not-a-number when the selection rate is 0), and the differences of
  \<open>tpr\<close> and \<open>ppv\<close> and the equalized odds difference are 0 when the rate of the
  group is a number and not-a-number when it is not.
\<close>

theorem summary_of_few_groups:
  assumes "from_arrays a = Inr r"
  shows "(by_group r = [] \<longrightarrow>
            summary r = \<lparr>demographic_parity_difference = NaN, disparate_impact_ratio = NaN,
                         equal_opportunity_difference = NaN, equalized_odds_difference = NaN,
                         predictive_parity_difference = NaN\<rparr>) \<and>
         (\<forall>m. by_group r = [m] \<longrightarrow>
            demographic_parity_difference (summary r) = Fl 0 \<and>
            disparate_impact_ratio (summary r) = (if positive_rate m = Fl 0 then NaN else Fl 1) \<and>
            equal_opportunity_difference (summary r) = (if tpr m = NaN then NaN else Fl 0) \<and>
            equalized_odds_difference (summary r) = (if tpr m = NaN then NaN else Fl 0) \<and>
            predictive_parity_difference (summary r) = (if ppv m = NaN then NaN else Fl 0))"
proof -
  from assms obtain p where
    bg: "by_group r = map (row_entry a p) (filter (\<lambda>grp. grp \<in> set (sensitive a)) (names a))" and
    su: "summary r = summary_val (by_group r)"
    by (rule from_arrays_report)
  have empty: "summary_val [] = \<lparr>demographic_parity_difference = NaN, disparate_impact_ratio = NaN,
                         equal_opportunity_difference = NaN, equalized_odds_difference = NaN,
                         predictive_parity_difference = NaN\<rparr>"
    by (simp add: summary_val_def di_val_def py_max_def float_gt_def)
  have single: "demographic_parity_difference (summary r) = Fl 0 \<and>
            disparate_impact_ratio (summary r) = (if positive_rate m = Fl 0 then NaN else Fl 1) \<and>
            equal_opportunity_difference (summary r) = (if tpr m = NaN then NaN else Fl 0) \<and>
            equalized_odds_difference (summary r) = (if tpr m = NaN then NaN else Fl 0) \<and>
            predictive_parity_difference (summary r) = (if ppv m = NaN then NaN else Fl 0)"
    if m: "by_group r = [m]" for m
  proof -
    from m have "m \<in> set (by_group r)" by simp
    with bg obtain grp where "m = row_entry a p grp" "grp \<in> set (sensitive a)"
      by (rule by_group_member)
    then have "positive_rate m \<noteq> NaN"
      by (simp add: positive_rate_finite)
    then obtain q where q: "positive_rate m = Fl q" by (cases "positive_rate m") auto
    show ?thesis
      by (simp add: su m summary_val_def span_val_single di_val_single q py_max_single)
  qed
  show ?thesis
    using empty single by (simp add: su)
qed

text \<open>
  C1, witness: the run with every group missing and the run with one group whose
  \<open>tpr\<close> is undefined.
\<close>

theorem summary_of_few_groups_witness:
  "from_arrays no_group_input = Inr no_group_report \<and> by_group no_group_report = [] \<and>
   demographic_parity_difference (summary no_group_report) = NaN \<and>
   from_arrays missing_input = Inr missing_report \<and>
   by_group missing_report = [missing_group] \<and>
   demographic_parity_difference (summary missing_report) = Fl 0 \<and>
   equal_opportunity_difference (summary missing_report) = NaN"
proof -
  have e: "by_group no_group_report = []"
    by (simp add: no_group_report_def)
  have s: "by_group missing_report = [missing_group]" "tpr missing_group = NaN"
    by (simp_all add: missing_report_def missing_group_def)
  from summary_of_few_groups [OF no_group_run] summary_of_few_groups [OF missing_run] e s
  show ?thesis
    by (simp add: no_group_run missing_run)
qed

text \<open>
  C1, counterexample: one group of two samples; none of the five values is
  not-a-number.
\<close>

theorem summary_single_group_counterexample:
  "from_arrays single_group_input = Inr single_group_report \<and>
   length (by_group single_group_report) = 1 \<and>
   demographic_parity_difference (summary single_group_report) = Fl 0 \<and>
   disparate_impact_ratio (summary single_group_report) = Fl 1 \<and>
   equal_opportunity_difference (summary single_group_report) = Fl 0 \<and>
   equalized_odds_difference (summary single_group_report) = Fl 0 \<and>
   predictive_parity_difference (summary single_group_report) = Fl 0"
  by (simp add: single_group_run) (simp add: single_group_report_def)

subsection \<open>C2: predictions from scores\<close>

text \<open>
  Claim C2 says that with \<^verbatim>\<open>y_score\<close> and \<^verbatim>\<open>threshold\<close> a sample is predicted
  positive exactly when its score reaches the threshold. The code never gets there:
  line 135 names the thresholded Series \<^verbatim>\<open>y_score\<close>, so the frame of line 143 has the
  columns \<^verbatim>\<open>y_true\<close>, \<^verbatim>\<open>y_score\<close>, \<^verbatim>\<open>sensitive\<close>, and line 149 reads the column
  \<^verbatim>\<open>y_pred\<close>.

  C2, what the code does: every call on the score path whose three sequences have the
  same length raises \<^verbatim>\<open>KeyError('y_pred')\<close> and returns no report.
\<close>

theorem score_path_key_error:
  assumes "y_pred a = None" "y_score a = Some sc" "threshold a = Some th"
    "length sc = length (y_true a)" "length (sensitive a) = length (y_true a)"
  shows "from_arrays a = Inl (KeyError ''y_pred'')"
  using assms by (simp add: from_arrays_score)

text \<open>
  C2, witness: two samples with the scores 0.9 and 0.1 and the threshold 0.5.
\<close>

theorem score_path_key_error_witness:
  "from_arrays score_input = Inl (KeyError ''y_pred'')"
  using score_path_key_error [of score_input "[Fl (9 / 10), Fl (1 / 10)]" "Fl (1 / 2)"]
  by (simp add: score_input_def)

subsection \<open>C3: validation errors\<close>

text \<open>
  Claim C3 says that \<open>from_arrays\<close> raises exactly when no prediction source is
  supplied or the sequences differ in length, and never otherwise. The two checks of
  lines 133 and 140 are as the claim says, but an explicit group order goes to
  \<^verbatim>\<open>set_categories\<close> unchecked, and pandas rejects a repeated or missing category.

  C3, as amended: \<open>from_arrays\<close> raises one of its two validation errors exactly when
  no prediction source is supplied or the sequences differ in length; with \<^verbatim>\<open>y_pred\<close>
  supplied, equal lengths and a group order (if any) without repeated or missing
  values it returns a report.
\<close>

theorem validation_errors:
  "((\<exists>e. from_arrays a = Inl e \<and> validation_error e) \<longleftrightarrow>
      no_prediction_source a \<or> lengths_differ a) \<and>
   (y_pred a \<noteq> None \<and> \<not> lengths_differ a \<and> order_ok a \<longrightarrow> (\<exists>r. from_arrays a = Inr r))"
proof (intro conjI iffI impI)
  assume "\<exists>e. from_arrays a = Inl e \<and> validation_error e"
  then obtain e where e: "from_arrays a = Inl e" "validation_error e" by blast
  show "no_prediction_source a \<or> lengths_differ a"
  proof (rule ccontr)
    assume "\<not> (no_prediction_source a \<or> lengths_differ a)"
    then have "\<not> no_prediction_source a" "\<not> lengths_differ a" by simp_all
    from from_arrays_other_errors [OF this e(1)] e(2) show False
      by (auto simp: validation_error_def)
  qed
next
  assume "no_prediction_source a \<or> lengths_differ a"
  then show "\<exists>e. from_arrays a = Inl e \<and> validation_error e"
    using from_arrays_no_source [of a] from_arrays_lengths [of a]
    by (cases "no_prediction_source a") (auto simp: validation_error_def)
next
  assume h: "y_pred a \<noteq> None \<and> \<not> lengths_differ a \<and> order_ok a"
  then obtain p where p: "y_pred a = Some p" by auto
  with h have "length (y_true a) = length p" "length (y_true a) = length (sensitive a)"
    by (simp_all add: lengths_differ_def pred_length_def)
  from from_arrays_pred [OF p this] h show "\<exists>r. from_arrays a = Inr r" by blast
qed

text \<open>
  C3, witness: scores without a threshold are refused, the test scenario is not.
\<close>

theorem validation_errors_witness:
  "from_arrays no_source_input = Inl (ValueError ''Provide either y_pred, or y_score+threshold.'') \<and>
   from_arrays test_input = Inr test_report"
proof -
  have 1: "no_prediction_source no_source_input"
    by (simp add: no_prediction_source_def no_source_input_def score_input_def)
  have 2: "y_pred test_input \<noteq> None \<and> \<not> lengths_differ test_input \<and> order_ok test_input"
    by (simp add: test_input_def lengths_differ_def pred_length_def order_ok_def)
  from 1 validation_errors [of no_source_input]
  have "\<exists>e. from_arrays no_source_input = Inl e \<and> validation_error e"
    by blast
  moreover from 2 validation_errors [of test_input] have "\<exists>r. from_arrays test_input = Inr r"
    by blast
  ultimately show ?thesis
    using from_arrays_no_source [OF 1] test_run by simp
qed

text \<open>
  C3, counterexample: predictions are supplied and the lengths agree, yet the call
  raises, because the group order names \<^verbatim>\<open>"A"\<close> twice.
\<close>

theorem unique_order_counterexample:
  "\<not> no_prediction_source dup_order_input \<and> \<not> lengths_differ dup_order_input \<and>
   from_arrays dup_order_input = Inl (ValueError ''Categorical categories must be unique'')"
  by code_simp

subsection \<open>C4: ratios never raise\<close>

text \<open>
  Claim C4: computing any of the seven ratios never raises; with a zero denominator
  the result is not-a-number, otherwise it is the numerator divided by the denominator.
  The statement has four parts: \<^verbatim>\<open>_safe_div\<close> itself on floats; the six ratios of the
  loop body of lines 166 to 177, where \<open>ratio n d\<close> is not-a-number for \<open>d = 0\<close> and
  \<open>n / d\<close> otherwise, on the arguments the loop passes (a 0/1 prediction vector and
  its length); the ratio of \<^verbatim>\<open>di_ratio\<close>; and \<open>from_arrays\<close> as a whole, which returns a
  report once its checks are passed, every entry of which is the result of the loop
  body on such arguments.
\<close>

theorem ratios_never_raise:
  "(\<exists>v. safe_div n d = Inr v) \<and>
   safe_div n (Fl 0) = Inr NaN \<and>
   (y \<noteq> 0 \<longrightarrow> safe_div (Fl x) (Fl y) = Inr (Fl (x / y))) \<and>
   (set yp \<subseteq> {0, 1} \<and> k = int (length yp) \<longrightarrow>
      group_metrics grp k yt yp =
        Inr \<lparr>group_label = grp, count = k, positive_rate = ratio (sum_list yp) k,
             tpr = ratio (confusion 1 1 yp yt) (confusion 1 1 yp yt + confusion 0 1 yp yt),
             fpr = ratio (confusion 1 0 yp yt) (confusion 1 0 yp yt + confusion 0 0 yp yt),
             ppv = ratio (confusion 1 1 yp yt) (confusion 1 1 yp yt + confusion 1 0 yp yt),
             tnr = ratio (confusion 0 0 yp yt) (confusion 0 0 yp yt + confusion 1 0 yp yt),
             fnr = ratio (confusion 0 1 yp yt) (confusion 0 1 yp yt + confusion 1 1 yp yt)\<rparr>) \<and>
   di_ratio ms = Inr (di_val (map positive_rate ms)) \<and>
   (y_pred a \<noteq> None \<and> \<not> lengths_differ a \<and> order_ok a \<longrightarrow>
      (\<exists>r. from_arrays a = Inr r \<and>
           di_ratio (by_group r) = Inr (disparate_impact_ratio (summary r)) \<and>
           (\<forall>m \<in> set (by_group r). \<exists>yt yp.
              set yp \<subseteq> {0, 1} \<and> count m = int (length yp) \<and>
              group_metrics (group_label m) (count m) yt yp = Inr m)))"
proof -
  have h1: "\<exists>v. safe_div n d = Inr v"
    by (simp add: safe_div_total)
  have h2: "safe_div n (Fl 0) = Inr NaN"
    by (simp add: safe_div_total)
  have h3: "y \<noteq> 0 \<longrightarrow> safe_div (Fl x) (Fl y) = Inr (Fl (x / y))"
    by (simp add: safe_div_total)
  have body: "group_metrics grp k yt yp =
        Inr \<lparr>group_label = grp, count = k, positive_rate = ratio (sum_list yp) k,
             tpr = ratio (confusion 1 1 yp yt) (confusion 1 1 yp yt + confusion 0 1 yp yt),
             fpr = ratio (confusion 1 0 yp yt) (confusion 1 0 yp yt + confusion 0 0 yp yt),
             ppv = ratio (confusion 1 1 yp yt) (confusion 1 1 yp yt + confusion 1 0 yp yt),
             tnr = ratio (confusion 0 0 yp yt) (confusion 0 0 yp yt + confusion 1 0 yp yt),
             fnr = ratio (confusion 0 1 yp yt) (confusion 0 1 yp yt + confusion 1 1 yp yt)\<rparr>"
    by (simp add: group_metrics_eq metrics_val_def)
  have di: "di_ratio ms = Inr (di_val (map positive_rate ms))"
    by (rule di_ratio_eq)
  have whole: "\<exists>r. from_arrays a = Inr r \<and>
           di_ratio (by_group r) = Inr (disparate_impact_ratio (summary r)) \<and>
           (\<forall>m \<in> set (by_group r). \<exists>yt yp.
              set yp \<subseteq> {0, 1} \<and> count m = int (length yp) \<and>
              group_metrics (group_label m) (count m) yt yp = Inr m)"
    if h: "y_pred a \<noteq> None \<and> \<not> lengths_differ a \<and> order_ok a"
  proof -
    from h obtain p where p: "y_pred a = Some p" by auto
    with h have len: "length (y_true a) = length p" "length (y_true a) = length (sensitive a)"
      by (simp_all add: lengths_differ_def pred_length_def)
    from h have ok: "order_ok a" by simp
    define r where "r = expected_report a p"
    have run: "from_arrays a = Inr r"
      unfolding r_def by (rule from_arrays_pred [OF p len ok])
    from run obtain p' where
      p': "y_pred a = Some p'" and
      lp: "length p' = length (sensitive a)" and
      bg: "by_group r = map (row_entry a p') (filter (\<lambda>grp. grp \<in> set (sensitive a)) (names a))" and
      su: "summary r = summary_val (by_group r)"
      by (rule from_arrays_report)
    have d: "di_ratio (by_group r) = Inr (disparate_impact_ratio (summary r))"
      by (simp add: di_ratio_eq su summary_val_def)
    have e: "\<exists>yt yp. set yp \<subseteq> {0, 1} \<and> count m = int (length yp) \<and>
              group_metrics (group_label m) (count m) yt yp = Inr m"
      if "m \<in> set (by_group r)" for m
    proof -
      from bg that obtain g where m: "m = row_entry a p' g"
        by (rule by_group_member)
      let ?yt = "eq_as_int (rows_of g (sensitive a) (y_true a)) (positive_label a)"
      let ?yp = "eq_as_int (rows_of g (sensitive a) p') (positive_label a)"
      have "set ?yp \<subseteq> {0, 1}"
        by (rule set_eq_as_int)
      moreover have "count m = int (length ?yp)"
        by (simp add: m row_entry_def metrics_val_def eq_as_int_def length_rows_of [OF lp])
      moreover have "group_metrics (group_label m) (count m) ?yt ?yp = Inr m"
        by (simp add: m row_entry_def group_metrics_eq metrics_val_def)
      ultimately show ?thesis by blast
    qed
    from run d e show ?thesis by blast
  qed
  have h4: "set yp \<subseteq> {0, 1} \<and> k = int (length yp) \<longrightarrow>
      group_metrics grp k yt yp =
        Inr \<lparr>group_label = grp, count = k, positive_rate = ratio (sum_list yp) k,
             tpr = ratio (confusion 1 1 yp yt) (confusion 1 1 yp yt + confusion 0 1 yp yt),
             fpr = ratio (confusion 1 0 yp yt) (confusion 1 0 yp yt + confusion 0 0 yp yt),
             ppv = ratio (confusion 1 1 yp yt) (confusion 1 1 yp yt + confusion 1 0 yp yt),
             tnr = ratio (confusion 0 0 yp yt) (confusion 0 0 yp yt + confusion 1 0 yp yt),
             fnr = ratio (confusion 0 1 yp yt) (confusion 0 1 yp yt + confusion 1 1 yp yt)\<rparr>"
    by (rule impI) (rule body)
  have h6: "y_pred a \<noteq> None \<and> \<not> lengths_differ a \<and> order_ok a \<longrightarrow>
      (\<exists>r. from_arrays a = Inr r \<and>
           di_ratio (by_group r) = Inr (disparate_impact_ratio (summary r)) \<and>
           (\<forall>m \<in> set (by_group r). \<exists>yt yp.
              set yp \<subseteq> {0, 1} \<and> count m = int (length yp) \<and>
              group_metrics (group_label m) (count m) yt yp = Inr m))"
    by (rule impI) (rule whole)
  show ?thesis
    by (intro conjI h1 h2 h3 h4 di h6)
qed

text \<open>
  C4, witness: a zero and a non-zero denominator, the loop body on the four rows of
  group \<^verbatim>\<open>"B"\<close> of the test scenario, and the disparate impact ratio of that
  scenario.
\<close>

theorem ratios_never_raise_witness:
  "safe_div (Fl 3) (Fl 0) = Inr NaN \<and> safe_div (Fl 1) (Fl 4) = Inr (Fl (1 / 4)) \<and>
   group_metrics (PStr ''B'') 4 [1, 0, 0, 0] [0, 0, 0, 1] = Inr test_group_B \<and>
   di_ratio [test_group_A, test_group_B] = Inr (Fl (1 / 3)) \<and>
   (\<exists>r. from_arrays test_input = Inr r)"
proof -
  have h: "y_pred test_input \<noteq> None \<and> \<not> lengths_differ test_input \<and> order_ok test_input"
    by (simp add: test_input_def lengths_differ_def pred_length_def order_ok_def)
  have b: "set [0, 0, 0, 1] \<subseteq> {0, 1 :: int} \<and> (4 :: int) = int (length [0, 0, 0, 1 :: int])"
    by simp
  note t = ratios_never_raise [where n = "Fl 3" and d = NaN and y = 4 and x = 1
      and yp = "[0, 0, 0, 1]" and k = 4 and grp = "PStr ''B''" and yt = "[1, 0, 0, 0]"
      and ms = "[test_group_A, test_group_B]" and a = test_input]
  note c2 = t [THEN conjunct2, THEN conjunct1]
  note c3 = t [THEN conjunct2, THEN conjunct2, THEN conjunct1]
  note c4 = t [THEN conjunct2, THEN conjunct2, THEN conjunct2, THEN conjunct1]
  note c5 = t [THEN conjunct2, THEN conjunct2, THEN conjunct2, THEN conjunct2, THEN conjunct1]
  note c6 = t [THEN conjunct2, THEN conjunct2, THEN conjunct2, THEN conjunct2, THEN conjunct2]
  from c3 have q: "safe_div (Fl 1) (Fl 4) = Inr (Fl (1 / 4))"
    by simp
  from c4 [rule_format, OF b] have g: "group_metrics (PStr ''B'') 4 [1, 0, 0, 0] [0, 0, 0, 1] = Inr test_group_B"
    by (simp add: ratio_def confusion_def test_group_B_def)
  from c5 have i: "di_ratio [test_group_A, test_group_B] = Inr (Fl (1 / 3))"
    by (simp add: di_val_def finite_vals_def test_group_A_def test_group_B_def)
  from c6 [rule_format, OF h] obtain r where "from_arrays test_input = Inr r"
    by (elim exE conjE)
  then have e: "\<exists>r. from_arrays test_input = Inr r" ..
  from c2 q g i e show ?thesis
    by (intro conjI)
qed

subsection \<open>C5: rates lie in the unit interval\<close>

text \<open>
  Claim C5: each of the six rates of every entry of \<^verbatim>\<open>by_group\<close> of a report lies in
  \<open>[0, 1]\<close> or is not-a-number.
\<close>

theorem rates_unit_or_nan:
  assumes "from_arrays a = Inr r" "m \<in> set (by_group r)"
  shows "unit_or_nan (positive_rate m) \<and> unit_or_nan (tpr m) \<and> unit_or_nan (fpr m) \<and>
         unit_or_nan (ppv m) \<and> unit_or_nan (tnr m) \<and> unit_or_nan (fnr m)"
proof -
  from assms(1) obtain p where
    lp: "length p = length (sensitive a)" and
    bg: "by_group r = map (row_entry a p) (filter (\<lambda>grp. grp \<in> set (sensitive a)) (names a))"
    by (rule from_arrays_report)
  from bg assms(2) obtain grp where m: "m = row_entry a p grp"
    by (rule by_group_member)
  have bits: "set (eq_as_int (rows_of grp (sensitive a) p) (positive_label a)) \<subseteq> {0, 1}"
    by (rule set_eq_as_int)
  have n: "int (length (filter (\<lambda>s. s = grp) (sensitive a)))
           = int (length (eq_as_int (rows_of grp (sensitive a) p) (positive_label a)))"
    by (simp add: eq_as_int_def length_rows_of [OF lp])
  show ?thesis
    unfolding m row_entry_def
    by (intro conjI metrics_val_unit [OF bits n])
qed

text \<open>
  C5, witness: the group with an undefined \<open>tpr\<close>.
\<close>

theorem rates_unit_or_nan_witness:
  "from_arrays missing_input = Inr missing_report \<and>
   unit_or_nan (positive_rate missing_group) \<and> unit_or_nan (tpr missing_group) \<and>
   unit_or_nan (fpr missing_group) \<and> unit_or_nan (ppv missing_group) \<and>
   unit_or_nan (tnr missing_group) \<and> unit_or_nan (fnr missing_group)"
proof -
  have "missing_group \<in> set (by_group missing_report)"
    by (simp add: missing_report_def)
  from rates_unit_or_nan [OF missing_run this] show ?thesis
    by (simp add: missing_run)
qed

subsection \<open>C6: demographic parity difference\<close>

text \<open>
  Claim C6: the demographic parity difference of a report is the largest selection rate
  of its groups minus the smallest, and it is not negative whenever it is a number.
  Every selection rate of the output is a number, since a group of the output has at
  least one row; with no group at all the value is not-a-number.
\<close>

theorem demographic_parity_range:
  assumes "from_arrays a = Inr r"
  shows "(by_group r = [] \<longrightarrow> demographic_parity_difference (summary r) = NaN) \<and>
         (by_group r \<noteq> [] \<longrightarrow>
            (\<exists>qs. map positive_rate (by_group r) = map Fl qs \<and>
                  demographic_parity_difference (summary r) = Fl (Max (set qs) - Min (set qs)))) \<and>
         (\<forall>x. demographic_parity_difference (summary r) = Fl x \<longrightarrow> 0 \<le> x)"
proof -
  from assms obtain p where
    bg: "by_group r = map (row_entry a p) (filter (\<lambda>grp. grp \<in> set (sensitive a)) (names a))" and
    su: "summary r = summary_val (by_group r)"
    by (rule from_arrays_report)
  have dpd: "demographic_parity_difference (summary r) = span_val (map positive_rate (by_group r))"
    by (simp add: su summary_val_def)
  have fin: "\<forall>v \<in> set (map positive_rate (by_group r)). v \<noteq> NaN"
    by (auto simp: bg positive_rate_finite)
  define qs where "qs = finite_vals (map positive_rate (by_group r))"
  have qs: "map Fl qs = map positive_rate (by_group r)"
    unfolding qs_def by (rule finite_vals_all [OF fin])
  have "by_group r \<noteq> [] \<Longrightarrow> qs \<noteq> []"
    using arg_cong [OF qs, of length] by auto
  then have "by_group r \<noteq> [] \<Longrightarrow>
     map positive_rate (by_group r) = map Fl qs \<and>
     demographic_parity_difference (summary r) = Fl (Max (set qs) - Min (set qs))"
    using qs span_val_range [OF qs_def [symmetric]] dpd by simp
  then have nonempty: "by_group r \<noteq> [] \<longrightarrow>
     (\<exists>qs. map positive_rate (by_group r) = map Fl qs \<and>
           demographic_parity_difference (summary r) = Fl (Max (set qs) - Min (set qs)))"
    by blast
  have empty: "by_group r = [] \<longrightarrow> demographic_parity_difference (summary r) = NaN"
    by (simp add: dpd)
  have nonneg: "\<forall>x. demographic_parity_difference (summary r) = Fl x \<longrightarrow> 0 \<le> x"
    using dpd span_val_nonneg by auto
  from empty nonempty nonneg show ?thesis by blast
qed

text \<open>
  C6, witness: the test scenario, with the selection rates 3/4 and 1/4.
\<close>

theorem demographic_parity_range_witness:
  "from_arrays test_input = Inr test_report \<and>
   map positive_rate (by_group test_report) = map Fl [3 / 4, 1 / 4] \<and>
   demographic_parity_difference (summary test_report) = Fl (1 / 2)"
proof -
  have ne: "by_group test_report \<noteq> []"
    and rates: "map positive_rate (by_group test_report) = map Fl [3 / 4, 1 / 4]"
    by (simp_all add: test_report_def test_group_A_def test_group_B_def)
  from demographic_parity_range [OF test_run] ne obtain qs where
    qs: "map positive_rate (by_group test_report) = map Fl qs"
      "demographic_parity_difference (summary test_report) = Fl (Max (set qs) - Min (set qs))"
    by blast
  have "inj Fl"
    by (simp add: inj_def)
  moreover have "map Fl qs = map Fl [3 / 4, 1 / 4]"
    using qs(1) [symmetric] rates by (rule trans)
  ultimately have "qs = [3 / 4, 1 / 4]"
    by (simp only: inj_map_eq_map)
  with qs(2) rates show ?thesis
    by (simp add: test_run)
qed

subsection \<open>C7: the sample count\<close>

text \<open>
  Claim C7: \<^verbatim>\<open>n_samples\<close> is the length of the input minus the number of rows dropped
  for a missing group value, which is the whole length when \<^verbatim>\<open>dropna_groups\<close> is
  false.
\<close>

theorem n_samples_after_drop:
  assumes "from_arrays a = Inr r"
  shows "n_samples (metadata r) =
         int (length (y_true a)) -
         (if dropna_groups a then int (length (filter (\<lambda>v. v = PNone) (sensitive a))) else 0)"
proof -
  from from_arrays_InrD [OF assms] obtain p where
    len: "length (y_true a) = length (sensitive a)" and r: "r = expected_report a p"
    by blast
  show ?thesis
    using len by (simp add: r expected_report_def kept_def length_select_map length_filter_notna)
qed

text \<open>
  C7, witness: three rows, two of them without a group.
\<close>

theorem n_samples_after_drop_witness:
  "from_arrays missing_input = Inr missing_report \<and> dropna_groups missing_input \<and>
   n_samples (metadata missing_report) = 3 - 2"
proof -
  have "int (length (y_true missing_input)) = 3" "dropna_groups missing_input"
    "int (length (filter (\<lambda>v. v = PNone) (sensitive missing_input))) = 2"
    by (simp_all add: missing_input_def)
  with n_samples_after_drop [OF missing_run] show ?thesis
    by (simp add: missing_run)
qed

subsection \<open>C8: the number of groups\<close>

text \<open>
  Claim C8 says that the number of entries is the number of distinct group values with
  at least one row, for every choice of \<^verbatim>\<open>group_order\<close>. Line 153 makes the explicit
  order the set of categories, so a group value that occurs in the rows and is not
  listed gets no entry. Besides, distinct values are counted as pandas stores them: two
  integers beyond \<open>2 ^ 53\<close> in a column with a missing value can be one stored value
  and one group.

  C8, as amended: for group values that are stored exactly (strings, and integers up to
  \<open>2 ^ 53\<close> in magnitude, in the rows and in the group order), the number of entries is
  the number of distinct non-missing group values that occur in the rows and, when a
  group order is given, are listed in it; without a group order it is the number of
  distinct non-missing group values. It is also the \<^verbatim>\<open>n_groups\<close> of the metadata.
\<close>

theorem group_count:
  assumes "from_arrays a = Inr r" "exact_groups a"
  shows "int (length (by_group r)) = n_groups (metadata r) \<and>
         length (by_group r) =
           card {v \<in> present_groups a. \<forall>order. group_order a = Some order \<longrightarrow> v \<in> set order} \<and>
         (group_order a = None \<longrightarrow> length (by_group r) = card (present_groups a))"
proof -
  from assms(1) obtain p where
    ok: "order_ok a" and
    bg: "by_group r = map (row_entry a p) (filter (\<lambda>grp. grp \<in> set (sensitive a)) (names a))" and
    ng: "n_groups (metadata r) = int (length (by_group r))"
    by (rule from_arrays_report)
  have "distinct (filter (\<lambda>grp. grp \<in> set (sensitive a)) (names a))"
    using names_ok(1) [OF ok] by simp
  then have len: "length (by_group r) = card {grp \<in> set (names a). grp \<in> set (sensitive a)}"
    using distinct_card [of "filter (\<lambda>grp. grp \<in> set (sensitive a)) (names a)"]
    by (simp add: bg)
  have "{grp \<in> set (names a). grp \<in> set (sensitive a)}
        = {v \<in> present_groups a. \<forall>order. group_order a = Some order \<longrightarrow> v \<in> set order}"
  proof (cases "group_order a")
    case None
    then show ?thesis
      by (auto simp: names_def set_categories_of present_groups_def)
  next
    case (Some order)
    with ok have "PNone \<notin> set order" by (simp add: order_ok_def)
    with Some show ?thesis
      by (auto simp: names_def present_groups_def)
  qed
  with len ng show ?thesis by auto
qed

text \<open>
  C8, witness: the test scenario with the order \<^verbatim>\<open>["B"]\<close> and without an order.
\<close>

theorem group_count_witness:
  "from_arrays listed_input = Inr listed_report \<and> exact_groups listed_input \<and>
   card {v \<in> present_groups listed_input. v \<in> set [PStr ''B'']} = 1 \<and>
   from_arrays test_input = Inr test_report \<and> exact_groups test_input \<and>
   card (present_groups test_input) = 2"
proof -
  have l: "length (by_group listed_report) = 1" "length (by_group test_report) = 2"
    by (simp_all add: listed_report_def test_report_def)
  have n: "group_order test_input = None" "group_order listed_input = Some [PStr ''B'']"
    by (simp_all add: test_input_def listed_input_def)
  have x: "exact_groups listed_input" "exact_groups test_input"
    by (simp_all add: exact_groups_def exact_int_def listed_input_def test_input_def)
  from group_count [OF listed_run x(1)] group_count [OF test_run x(2)] l n x show ?thesis
    by (simp add: listed_run test_run)
qed

text \<open>
  C8, counterexample: the groups \<^verbatim>\<open>"A"\<close> and \<^verbatim>\<open>"B"\<close> both have four rows, and the
  report for the order \<^verbatim>\<open>["B"]\<close> has one entry.
\<close>

theorem group_count_counterexample:
  "from_arrays listed_input = Inr listed_report \<and> length (by_group listed_report) = 1 \<and>
   card (present_groups listed_input) = 2"
proof -
  have "present_groups listed_input = {PStr ''A'', PStr ''B''}"
    by (auto simp: present_groups_def listed_input_def test_input_def)
  then show ?thesis
    by (simp add: listed_run) (simp add: listed_report_def)
qed

subsection \<open>C9: complementary rates\<close>



subsection \<open>C10: rows outside an explicit group order\<close>




end
